theory Spec2Isabelle
  imports Main "HOL-Library.AList" "HOL-Library.Sublist"
begin

section \<open>Session pool and backup/restore of \<^verbatim>\<open>app.py\<close>\<close>

text \<open>
  The module keeps four pieces of state: the dictionary \<^verbatim>\<open>clients\<close> (account name to
  client handle), the dictionary \<^verbatim>\<open>accounts\<close> (account name to metadata) and two
  directories on disk, \<^verbatim>\<open>sessions\<close> and \<^verbatim>\<open>backups\<close>. Every endpoint is modelled as a
  function from the state to a result and the new state; a raised exception is the
  \<open>Inl\<close> branch of the result, returned together with the state at the moment of the
  raise. The lock \<^verbatim>\<open>clients_lock\<close> serialises the operations on the pool; the model
  runs one operation at a time.

  Scope of the model. The process runs on a POSIX system in a working directory that
  holds the two directories. A directory is a flat list of entries (file name,
  contents) in listing order, all of them regular files; \<^verbatim>\<open>os.path.join(SESSIONS_DIR, f)\<close>
  for a plain name \<open>f\<close> is the entry \<open>f\<close> of the sessions directory. Names that come
  from a request (the name of an upload, the names of the members of an archive) are
  resolved as the operating system and the zip library resolve them; where the result is
  a place that a flat directory cannot show, the model says so instead of going on. The
  wrapped client library, the zip library and the operating system are not part of the
  source; their calls are modelled by the effect the source relies on, and every outcome
  that the source does not control (the liveness probe, a login, the loading of a session
  blob, a failing read, a damaged archive) is an explicit input.
\<close>

subsection \<open>Strings\<close>

type_synonym bytes = string

text \<open>\<^verbatim>\<open>s.split(sep)\<close> for a one-character separator: never the empty list.\<close>

fun split :: "char \<Rightarrow> string \<Rightarrow> string list" where
  "split sep [] = [[]]"
| "split sep (c # cs) =
     (if c = sep then [] # split sep cs
      else (case split sep cs of
              w # ws \<Rightarrow> (c # w) # ws
            | [] \<Rightarrow> [[c]]))"

text \<open>
  \<^verbatim>\<open>s.replace(old, new)\<close>. For a non-empty \<open>old\<close> every non-overlapping occurrence is
  replaced, scanning from the left; for an empty \<open>old\<close>, \<open>new\<close> is put before every
  character and at the end.
\<close>

function replace_scan :: "string \<Rightarrow> string \<Rightarrow> string \<Rightarrow> string" where
  "replace_scan old new [] = []"
| "replace_scan old new (c # cs) =
     (if old \<noteq> [] \<and> prefix old (c # cs)
      then new @ replace_scan old new (drop (length old) (c # cs))
      else c # replace_scan old new cs)"
  by pat_completeness auto
termination
  by (relation "measure (\<lambda>(old, new, s). length s)") (auto simp: neq_Nil_conv)

definition replace :: "string \<Rightarrow> string \<Rightarrow> string \<Rightarrow> string" where
  "replace old new s =
     (if old = [] then new @ concat (map (\<lambda>c. c # new) s) else replace_scan old new s)"

text \<open>\<^verbatim>\<open>s.endswith(suf)\<close>.\<close>

definition endswith :: "string \<Rightarrow> string \<Rightarrow> bool" where
  "endswith s suf = suffix suf s"

subsection \<open>Directories\<close>

type_synonym 'a directory = "(string \<times> 'a) list"

definition listdir :: "'a directory \<Rightarrow> string list" where
  "listdir d = map fst d"

definition path_exists :: "'a directory \<Rightarrow> string \<Rightarrow> bool" where
  "path_exists d f = (f \<in> set (listdir d))"

definition read_file :: "'a directory \<Rightarrow> string \<Rightarrow> 'a option" where
  "read_file d f = map_of d f"

definition write_file :: "string \<Rightarrow> 'a \<Rightarrow> 'a directory \<Rightarrow> 'a directory" where
  "write_file f b d = AList.update f b d"

definition remove_file :: "string \<Rightarrow> 'a directory \<Rightarrow> 'a directory" where
  "remove_file f d = AList.delete f d"

subsection \<open>Names\<close>

text \<open>
  A plain name is what a directory entry can be called: not empty, not \<^verbatim>\<open>.\<close> or
  \<^verbatim>\<open>..\<close>, without a slash or a NUL character, and at most 255 characters long.
\<close>

definition plain_name :: "string \<Rightarrow> bool" where
  "plain_name f \<longleftrightarrow>
     f \<noteq> [] \<and> f \<noteq> ''.'' \<and> f \<noteq> ''..'' \<and> CHR ''/'' \<notin> set f \<and> CHR 0x00 \<notin> set f \<and> length f \<le> 255"

subsection \<open>Archives\<close>

text \<open>
  A member of a zip archive carries its name and its data. The data is either intact,
  or damaged: reading it raises, after the library has put \<open>None\<close> (nothing) or
  \<open>Some b\<close> (the bytes \<open>b\<close>) into the target file. A file of the backup directory, and
  an upload, is an archive that opens or bytes that are not a zip file.
\<close>

datatype zdata = Stored bytes | Damaged "bytes option"

type_synonym member = "string \<times> zdata"

datatype payload = Archive "member list" | Garbage bytes

text \<open>A member is intact when its data can be read to the end.\<close>

fun is_stored :: "zdata \<Rightarrow> bool" where
  "is_stored (Stored b) = True"
| "is_stored (Damaged w) = False"

text \<open>
  The bytes of a file that holds a payload; \<open>enc\<close> is the zip library's encoding of an
  archive.
\<close>

definition payload_bytes :: "(member list \<Rightarrow> bytes) \<Rightarrow> payload \<Rightarrow> bytes" where
  "payload_bytes enc p = (case p of Archive ms \<Rightarrow> enc ms | Garbage b \<Rightarrow> b)"

text \<open>
  Where \<^verbatim>\<open>extractall\<close> puts a member. The library splits the member's name at the
  slashes and drops the empty parts and the parts \<^verbatim>\<open>.\<close> and \<^verbatim>\<open>..\<close>; what is left is the
  path below the target directory. One part gives a file of the directory itself, which
  cannot be created when the part is too long or holds a NUL. A name that ends in a slash
  is a directory, and more than one part is a file in a subdirectory: both lie below the
  flat store. No part at all leaves the directory itself, which cannot be written as a
  file.
\<close>

datatype target = File_in_store string | Not_creatable | Below_store

definition member_parts :: "string \<Rightarrow> string list" where
  "member_parts name = filter (\<lambda>c. c \<noteq> [] \<and> c \<noteq> ''.'' \<and> c \<noteq> ''..'') (split CHR ''/'' name)"

definition member_target :: "string \<Rightarrow> target" where
  "member_target name =
     (if endswith name ''/'' then Below_store
      else (case member_parts name of
              [] \<Rightarrow> Not_creatable
            | [t] \<Rightarrow> if length t \<le> 255 \<and> CHR 0x00 \<notin> set t then File_in_store t else Not_creatable
            | t # u # us \<Rightarrow> Below_store))"

text \<open>The file of the store that a member is written to, if it is one.\<close>

definition store_file :: "string \<Rightarrow> string option" where
  "store_file name = (case member_target name of File_in_store t \<Rightarrow> Some t | _ \<Rightarrow> None)"

subsection \<open>State and errors\<close>

record client =
  settings :: bytes
  proxy :: "string option"
  delay_range :: "nat list"
  user_agent :: string

record metadata =
  email :: string
  meta_proxy :: "string option"
  created :: string

record state =
  clients :: "string \<rightharpoonup> client"
  accounts :: "string \<rightharpoonup> metadata"
  sessions :: "bytes directory"
  backups :: "payload directory"

text \<open>
  \<open>HTTPException\<close> is raised by the source itself. The others are raised by a library or
  the operating system and pass through the source: \<open>BadZipFile\<close> when the upload does
  not open as an archive, \<open>ExtractError\<close> for whatever \<^verbatim>\<open>extractall\<close> raises,
  \<open>LoadError\<close> for whatever \<^verbatim>\<open>load_settings\<close> raises, \<open>OSError\<close> for a file that cannot
  be opened or read. \<open>NotFlat\<close> is not an exception: it marks the point where an archive
  member would create a subdirectory of the session store, which the model does not
  follow.
\<close>

datatype error = HTTPException nat string | BadZipFile | OSError | ExtractError | LoadError | NotFlat

type_synonym 'a result = "(error + 'a) \<times> state"

definition session_path :: "string \<Rightarrow> string" where
  "session_path account_name = account_name @ ''.json''"

subsection \<open>\<^verbatim>\<open>get_client\<close>\<close>

text \<open>
  The handle as the source has set it up when it calls \<^verbatim>\<open>load_settings\<close>: a new
  \<^verbatim>\<open>Client()\<close> with the delay range, the user agent and, if the registry has a
  non-empty proxy for the account, the proxy.
\<close>

definition new_client :: "state \<Rightarrow> string \<Rightarrow> client" where
  "new_client st account_name =
     \<lparr> settings = [],
       proxy = (case accounts st account_name of
                  Some m \<Rightarrow> (case meta_proxy m of
                               Some p \<Rightarrow> if p \<noteq> [] then Some p else None
                             | None \<Rightarrow> None)
                | None \<Rightarrow> None),
       delay_range = [2, 6],
       user_agent = ''Mozilla/5.0 (Windows NT 10.0; Win64; x64) AppleWebKit/537.36'' \<rparr>"

text \<open>
  The part of \<^verbatim>\<open>get_client\<close> after the cache lookup. \<open>load_settings blob cl\<close> is the
  library call \<^verbatim>\<open>cl.load_settings(session_path)\<close> on a session file with the contents
  \<open>blob\<close>: \<open>None\<close> when it raises (the blob is not what the library can read), otherwise
  the handle as the library leaves it. The source has no handler around the call, so the
  exception leaves \<^verbatim>\<open>get_client\<close> before the handle is cached. The session file exists
  exactly when reading it gives contents (lemma \<open>path_exists_read\<close> below).
\<close>

definition load_client ::
  "(bytes \<Rightarrow> client \<Rightarrow> client option) \<Rightarrow> string \<Rightarrow> state \<Rightarrow> client result" where
  "load_client load_settings account_name st =
     (case read_file (sessions st) (session_path account_name) of
        None \<Rightarrow> (Inl (HTTPException 404 (''Session '' @ account_name @ ''.json missing'')), st)
      | Some blob \<Rightarrow>
          (case load_settings blob (new_client st account_name) of
             None \<Rightarrow> (Inl LoadError, st)
           | Some cl \<Rightarrow> (Inr cl, st\<lparr>clients := (clients st)(account_name \<mapsto> cl)\<rparr>)))"

text \<open>
  \<open>feed_ok\<close> is the outcome of the probe \<^verbatim>\<open>get_timeline_feed()\<close> of this call: the
  bare \<^verbatim>\<open>except\<close> makes every failure the same.
\<close>

definition get_client ::
  "(bytes \<Rightarrow> client \<Rightarrow> client option) \<Rightarrow> bool \<Rightarrow> string \<Rightarrow> state \<Rightarrow> client result" where
  "get_client load_settings feed_ok account_name st =
     (case clients st account_name of
        Some cl \<Rightarrow>
          if feed_ok then (Inr cl, st)
          else load_client load_settings account_name
                 (st\<lparr>clients := (clients st)(account_name := None)\<rparr>)
      | None \<Rightarrow> load_client load_settings account_name st)"

subsection \<open>\<^verbatim>\<open>add_account\<close>\<close>

record add_req =
  req_email :: string
  req_password :: string
  req_proxy :: "string option"
  req_name :: "string option"

text \<open>\<^verbatim>\<open>req.name or ...\<close>: \<^verbatim>\<open>None\<close> and the empty string are both falsy.\<close>

definition account_name_of :: "add_req \<Rightarrow> string" where
  "account_name_of req =
     (case req_name req of
        Some n \<Rightarrow> if n \<noteq> [] then n
                  else replace ''.'' ''_'' (replace ''+'' ''_'' (hd (split CHR ''@'' (req_email req))))
      | None \<Rightarrow> replace ''.'' ''_'' (replace ''+'' ''_'' (hd (split CHR ''@'' (req_email req)))))"

text \<open>
  The background task. \<open>login\<close> is the outcome of \<^verbatim>\<open>cl.login\<close>: \<open>None\<close> when it
  raises (the task only prints), otherwise the settings that \<^verbatim>\<open>dump_settings\<close> writes;
  \<open>now\<close> is the clock.
\<close>

definition create_session :: "add_req \<Rightarrow> bytes option \<Rightarrow> string \<Rightarrow> state \<Rightarrow> state" where
  "create_session req login now st =
     (case login of
        None \<Rightarrow> st
      | Some blob \<Rightarrow>
          st\<lparr> sessions := write_file (session_path (account_name_of req)) blob (sessions st),
              accounts := (accounts st)(account_name_of req \<mapsto>
                 \<lparr> email = req_email req, meta_proxy = req_proxy req, created = now \<rparr>) \<rparr>)"

text \<open>The immediate answer of the endpoint: the message and the account name.\<close>

definition add_account :: "add_req \<Rightarrow> string \<times> string" where
  "add_account req = (''Creating '' @ account_name_of req @ ''...'', account_name_of req)"

subsection \<open>\<^verbatim>\<open>create_backup\<close>\<close>

text \<open>
  What happens when \<^verbatim>\<open>zf.write\<close> reads a session file: it is read to the end, or it
  cannot be opened, or the read fails after \<open>k\<close> bytes.
\<close>

datatype read_result = Reads | Open_fails | Read_fails nat

text \<open>
  \<^verbatim>\<open>zf.write\<close> over the listing, in order; \<open>outcome f\<close> is what reading the session
  file \<open>f\<close> does. A file that cannot be opened leaves nothing in the archive. A read
  that fails later leaves an entry with the bytes read so far, because the library closes
  the entry when the exception passes. The result is the members written and whether the
  loop ran to its end.
\<close>

fun write_members ::
  "(string \<Rightarrow> read_result) \<Rightarrow> bytes directory \<Rightarrow> string list \<Rightarrow> member list \<times> bool" where
  "write_members outcome d [] = ([], True)"
| "write_members outcome d (f # fs) =
     (case read_file d f of
        None \<Rightarrow> ([], False)
      | Some b \<Rightarrow>
          (case outcome f of
             Reads \<Rightarrow> (case write_members outcome d fs of (ms, ok) \<Rightarrow> ((f, Stored b) # ms, ok))
           | Open_fails \<Rightarrow> ([], False)
           | Read_fails k \<Rightarrow> ([(f, Stored (take k b))], False)))"

text \<open>
  The archive file is created when the \<^verbatim>\<open>with\<close> block is entered and closed when it is
  left, also by an exception: what has been written stays in the backup directory.
  \<open>timestamp\<close> is the clock as \<^verbatim>\<open>strftime("%Y%m%d_%H%M%S")\<close> formats it, digits and an
  underscore, so the archive's name is a plain name; the size is that of the encoded
  archive.
\<close>

definition create_backup ::
  "(string \<Rightarrow> read_result) \<Rightarrow> (member list \<Rightarrow> bytes) \<Rightarrow> string \<Rightarrow> state \<Rightarrow> (string \<times> nat) result" where
  "create_backup outcome enc timestamp st =
     (let backup_file = ''backup_'' @ timestamp @ ''.zip'';
          (ms, ok) = write_members outcome (sessions st) (listdir (sessions st));
          st' = st\<lparr>backups := write_file backup_file (Archive ms) (backups st)\<rparr>
      in if ok then (Inr (backup_file, length (enc ms)), st') else (Inl OSError, st'))"

subsection \<open>\<^verbatim>\<open>restore_backup\<close>\<close>

text \<open>
  Where \<^verbatim>\<open>open(os.path.join(BACKUP_DIR, filename), "wb")\<close> puts the upload. The name
  comes from the request. An absolute name replaces the whole path. A relative name is
  followed from the backup directory, part by part: an empty part or \<^verbatim>\<open>.\<close> stays, \<^verbatim>\<open>..\<close>
  goes up, a name goes down. The two directories have no subdirectories; the working
  directory holds \<^verbatim>\<open>sessions\<close> and \<^verbatim>\<open>backups\<close>, and what else it holds, and where it
  lies, the model does not know.
\<close>

datatype dir = Cwd | Sessions_dir | Backups_dir

datatype pos = At dir | Untracked | Stuck

fun descend :: "pos \<Rightarrow> string \<Rightarrow> pos" where
  "descend Stuck c = Stuck"
| "descend Untracked c = Untracked"
| "descend (At D) c =
     (if c = [] \<or> c = ''.'' then At D
      else if c = ''..'' then (case D of Cwd \<Rightarrow> Untracked | _ \<Rightarrow> At Cwd)
      else (case D of
              Cwd \<Rightarrow> if c = ''sessions'' then At Sessions_dir
                     else if c = ''backups'' then At Backups_dir
                     else Untracked
            | _ \<Rightarrow> Stuck))"

text \<open>
  \<open>Elsewhere\<close> is a file outside the two directories, taken to be writable: this is
  where the model puts every name that it cannot follow (an absolute name, a name that
  passes through a directory it does not know). \<open>Unopenable\<close> is a path that cannot be
  opened for writing: it passes through a file or a missing directory, or it ends at a
  directory or at a name that no entry can have.
\<close>

datatype place = In_backups string | In_sessions string | Elsewhere | Unopenable

definition upload_place :: "string \<Rightarrow> place" where
  "upload_place filename =
     (if filename \<noteq> [] \<and> hd filename = CHR ''/'' then Elsewhere
      else (case foldl descend (At Backups_dir) (butlast (split CHR ''/'' filename)) of
              Stuck \<Rightarrow> Unopenable
            | Untracked \<Rightarrow> Elsewhere
            | At D \<Rightarrow>
                if \<not> plain_name (last (split CHR ''/'' filename)) then Unopenable
                else (case D of
                        Backups_dir \<Rightarrow> In_backups (last (split CHR ''/'' filename))
                      | Sessions_dir \<Rightarrow> In_sessions (last (split CHR ''/'' filename))
                      | Cwd \<Rightarrow>
                          if last (split CHR ''/'' filename) = ''sessions''
                             \<or> last (split CHR ''/'' filename) = ''backups''
                          then Unopenable else Elsewhere)))"

text \<open>
  \<^verbatim>\<open>zf.extractall\<close> goes through the names of the archive in order and extracts each
  by name, and the library resolves a name to the last member that has it
  (\<open>map_of (rev ms)\<close>). It stops at the first member that raises, with what it has written
  so far: a member that cannot be created raises with nothing written, a damaged one
  raises after what the damage has let through.
\<close>

datatype extract_status = Extracted | Raised | Left_store

fun extract_names ::
  "member list \<Rightarrow> string list \<Rightarrow> bytes directory \<Rightarrow> bytes directory \<times> extract_status" where
  "extract_names ms [] d = (d, Extracted)"
| "extract_names ms (f # fs) d =
     (case member_target f of
        Below_store \<Rightarrow> (d, Left_store)
      | Not_creatable \<Rightarrow> (d, Raised)
      | File_in_store t \<Rightarrow>
          (case map_of (rev ms) f of
             None \<Rightarrow> (d, Raised)
           | Some (Stored b) \<Rightarrow> extract_names ms fs (write_file t b d)
           | Some (Damaged None) \<Rightarrow> (d, Raised)
           | Some (Damaged (Some b)) \<Rightarrow> (write_file t b d, Raised)))"

definition extractall :: "member list \<Rightarrow> bytes directory \<Rightarrow> bytes directory \<times> extract_status" where
  "extractall ms d = extract_names ms (map fst ms) d"

definition restored_names :: "bytes directory \<Rightarrow> string list" where
  "restored_names d = map (replace ''.json'' '''') (filter (\<lambda>f. endswith f ''.json'') (listdir d))"

text \<open>The state after the upload has been saved; \<open>None\<close> when it cannot be.\<close>

definition save_upload :: "(member list \<Rightarrow> bytes) \<Rightarrow> string \<Rightarrow> payload \<Rightarrow> state \<Rightarrow> state option" where
  "save_upload enc filename upload st =
     (case upload_place filename of
        In_backups f \<Rightarrow> Some (st\<lparr>backups := write_file f upload (backups st)\<rparr>)
      | In_sessions f \<Rightarrow> Some (st\<lparr>sessions := write_file f (payload_bytes enc upload) (sessions st)\<rparr>)
      | Elsewhere \<Rightarrow> Some st
      | Unopenable \<Rightarrow> None)"

definition restore_backup ::
  "(member list \<Rightarrow> bytes) \<Rightarrow> string \<Rightarrow> payload \<Rightarrow> state \<Rightarrow> (string list \<times> nat) result" where
  "restore_backup enc filename upload st =
     (case save_upload enc filename upload st of
        None \<Rightarrow> (Inl OSError, st)
      | Some st1 \<Rightarrow>
          (case upload of
             Garbage b \<Rightarrow> (Inl BadZipFile, st1)
           | Archive ms \<Rightarrow>
               (case extractall ms (sessions st1) of
                  (d, Raised) \<Rightarrow> (Inl ExtractError, st1\<lparr>sessions := d\<rparr>)
                | (d, Left_store) \<Rightarrow> (Inl NotFlat, st1\<lparr>sessions := d\<rparr>)
                | (d, Extracted) \<Rightarrow>
                    (let st2 = st1\<lparr>sessions := d, clients := Map.empty\<rparr>;
                         restored = restored_names (sessions st2)
                     in (Inr (restored, length restored), st2)))))"

subsection \<open>\<^verbatim>\<open>delete_account\<close>\<close>

definition delete_account :: "string \<Rightarrow> state \<Rightarrow> string result" where
  "delete_account account st =
     (if path_exists (sessions st) (session_path account)
      then (Inr (account @ '' deleted''),
            st\<lparr> sessions := remove_file (session_path account) (sessions st),
                clients := (clients st)(account := None),
                accounts := (accounts st)(account := None) \<rparr>)
      else (Inl (HTTPException 404 ''Account not found''), st))"

subsection \<open>Concrete states\<close>

definition demo_handle :: client where
  "demo_handle = \<lparr> settings = ''A0'', proxy = None, delay_range = [2, 6], user_agent = ''agent'' \<rparr>"

text \<open>
  Two persisted accounts (\<open>alice\<close>, \<open>bob\<close>), a handle cached for \<open>alice\<close> and a stale
  one cached for \<open>ghost\<close>, whose session file is gone; \<open>bob\<close> has a proxy registered.
\<close>

definition demo :: state where
  "demo = \<lparr> clients = [''alice'' \<mapsto> demo_handle, ''ghost'' \<mapsto> demo_handle],
            accounts = [''bob'' \<mapsto> \<lparr> email = ''bob@x.com'', meta_proxy = Some ''http://proxy:8080'',
                                     created = ''2024-01-01T00:00:00'' \<rparr>],
            sessions = [(''alice.json'', ''A''), (''bob.json'', ''B'')],
            backups = [] \<rparr>"

text \<open>An account created with the explicit name \<^verbatim>\<open>a.json\<close>, and a state with nothing in it.\<close>

definition dotted :: state where
  "dotted = \<lparr> clients = Map.empty, accounts = Map.empty,
               sessions = [(''a.json.json'', ''S'')], backups = [] \<rparr>"

definition blank :: state where
  "blank = \<lparr> clients = Map.empty, accounts = Map.empty, sessions = [], backups = [] \<rparr>"

text \<open>
  Stand-ins for the two libraries in the examples. \<open>demo_enc\<close> is an encoding of
  archives (the bytes of an archive file; the source reports their number). In the
  examples \<open>\<not> isl x\<close> says that the result \<open>x\<close> is not an exception. \<open>toy_load\<close> is a loader that
  accepts a blob that starts like a JSON object and refuses every other blob, as a JSON
  reader does; it keeps the blob as the settings and takes the user agent from the blob,
  which names none.
\<close>

definition demo_enc :: "member list \<Rightarrow> bytes" where
  "demo_enc ms = ''PK'' @ concat (map fst ms)"

definition toy_load :: "bytes \<Rightarrow> client \<Rightarrow> client option" where
  "toy_load blob cl =
     (if blob \<noteq> [] \<and> hd blob = CHR ''{'' then Some (cl\<lparr>settings := blob, user_agent := []\<rparr>) else None)"

text \<open>The state \<open>demo\<close> with session blobs that the loader accepts.\<close>

definition demo_json :: state where
  "demo_json = demo\<lparr>sessions := [(''alice.json'', ''{}''), (''bob.json'', ''{ }'')]\<rparr>"

section \<open>Properties\<close>

subsection \<open>Strings and directories\<close>

lemma split_nonempty: "split sep s \<noteq> []"
  by (induction s) (auto split: list.splits)

lemma hd_split: "hd (split sep s) = takeWhile (\<lambda>c. c \<noteq> sep) s"
  by (induction s) (auto simp: split_nonempty split: list.splits)

lemma replace_scan_char: "replace_scan [a] [b] s = map (\<lambda>c. if c = a then b else c) s"
  by (induction s) auto

lemma replace_char: "replace [a] [b] s = map (\<lambda>c. if c = a then b else c) s"
  by (simp add: replace_def replace_scan_char)

lemma path_exists_read: "path_exists d f \<longleftrightarrow> read_file d f \<noteq> None"
  by (simp add: path_exists_def read_file_def listdir_def map_of_eq_None_iff)

lemma read_write_file: "read_file (write_file f b d) g = (if g = f then Some b else read_file d g)"
  by (simp add: read_file_def write_file_def update_conv')


lemma read_remove_file: "read_file (remove_file f d) g = (if g = f then None else read_file d g)"
  by (simp add: read_file_def remove_file_def delete_conv')

lemma read_file_distinct:
  "distinct (map fst d) \<Longrightarrow> (g, c) \<in> set d \<Longrightarrow> read_file d g = Some c"
  by (simp add: read_file_def)

lemma map_of_rev_distinct:
  "distinct (map fst ms) \<Longrightarrow> (f, z) \<in> set ms \<Longrightarrow> map_of (rev ms) f = Some z"
  by (rule map_of_is_SomeI) (simp_all add: rev_map [symmetric])

subsection \<open>Names\<close>

text \<open>A plain name is resolved to itself, as an upload and as an archive member.\<close>

lemma split_no_sep: "sep \<notin> set s \<Longrightarrow> split sep s = [s]"
  by (induction s) auto

lemma plain_name_split: "plain_name f \<Longrightarrow> split CHR ''/'' f = [f]"
  by (simp add: plain_name_def split_no_sep)

lemma upload_place_plain: "plain_name f \<Longrightarrow> upload_place f = In_backups f"
proof -
  assume plain: "plain_name f"
  then have "f \<noteq> []" and "CHR ''/'' \<notin> set f"
    by (simp_all add: plain_name_def)
  then have "hd f \<noteq> CHR ''/''"
    by (cases f) auto
  with plain show ?thesis
    by (simp add: upload_place_def plain_name_split)
qed

lemma member_target_plain: "plain_name f \<Longrightarrow> member_target f = File_in_store f"
  by (auto simp: member_target_def member_parts_def plain_name_split endswith_def,
      auto simp: plain_name_def suffix_def)

lemma store_file_plain: "plain_name f \<Longrightarrow> store_file f = Some f"
  by (simp add: store_file_def member_target_plain)

subsection \<open>Extraction\<close>










text \<open>Members with plain, pairwise different names, all intact, are all extracted.\<close>

lemma extract_names_intact_prefix:
  assumes "distinct (map fst pre)"
    and "\<forall>m\<in>set pre. plain_name (fst m) \<and> is_stored (snd m) \<and> map_of (rev ms) (fst m) = Some (snd m)"
  shows "snd (extract_names ms (map fst pre) d) = Extracted \<and>
         (\<forall>g. read_file (fst (extract_names ms (map fst pre) d)) g =
               (case map_of pre g of Some (Stored b) \<Rightarrow> Some b | _ \<Rightarrow> read_file d g))"
  using assms
proof (induction pre arbitrary: d)
  case Nil
  then show ?case by simp
next
  case (Cons m pre)
  obtain f z where m: "m = (f, z)"
    by (cases m)
  with Cons.prems obtain b where z: "z = Stored b"
    by (cases z) auto
  from Cons.prems m have plain: "plain_name f" and last: "map_of (rev ms) f = Some (Stored b)"
    and fresh: "f \<notin> fst ` set pre"
    by (auto simp: z)
  have step: "extract_names ms (map fst (m # pre)) d = extract_names ms (map fst pre) (write_file f b d)"
    by (simp add: m member_target_plain [OF plain] last)
  from Cons.prems have "distinct (map fst pre)"
    and "\<forall>m\<in>set pre. plain_name (fst m) \<and> is_stored (snd m) \<and> map_of (rev ms) (fst m) = Some (snd m)"
    by simp_all
  from Cons.IH [OF this, of "write_file f b d"]
  have ok: "snd (extract_names ms (map fst pre) (write_file f b d)) = Extracted"
    and rd: "\<And>g. read_file (fst (extract_names ms (map fst pre) (write_file f b d))) g =
               (case map_of pre g of Some (Stored b) \<Rightarrow> Some b | _ \<Rightarrow> read_file (write_file f b d) g)"
    by simp_all
  from fresh have none: "map_of pre f = None"
    by (simp add: map_of_eq_None_iff)
  show ?case
    unfolding step using ok rd none
    by (auto simp: m z read_write_file split: option.splits zdata.splits)
qed

subsection \<open>Saving and restoring\<close>

lemma save_upload_plain:
  "plain_name filename \<Longrightarrow>
   save_upload enc filename upload st = Some (st\<lparr>backups := write_file filename upload (backups st)\<rparr>)"
  by (simp add: save_upload_def upload_place_plain)


lemma restore_backup_saved:
  "save_upload enc filename (Archive ms) st = Some st1 \<Longrightarrow>
   restore_backup enc filename (Archive ms) st =
     (case snd (extractall ms (sessions st1)) of
        Extracted \<Rightarrow>
          (Inr (restored_names (fst (extractall ms (sessions st1))),
                length (restored_names (fst (extractall ms (sessions st1))))),
           st1\<lparr>sessions := fst (extractall ms (sessions st1)), clients := Map.empty\<rparr>)
      | Raised \<Rightarrow> (Inl ExtractError, st1\<lparr>sessions := fst (extractall ms (sessions st1))\<rparr>)
      | Left_store \<Rightarrow> (Inl NotFlat, st1\<lparr>sessions := fst (extractall ms (sessions st1))\<rparr>))"
  by (cases "extractall ms (sessions st1)")
     (simp add: restore_backup_def Let_def split: extract_status.splits)


subsection \<open>Writing an archive\<close>

lemma write_members_all_read:
  "\<forall>g\<in>set ns. outcome g = Reads \<and> read_file d g \<noteq> None \<Longrightarrow>
   write_members outcome d ns = (map (\<lambda>g. (g, Stored (the (read_file d g)))) ns, True)"
  by (induction ns) auto

lemma write_members_append:
  "\<forall>g\<in>set ns1. outcome g = Reads \<and> read_file d g \<noteq> None \<Longrightarrow>
   write_members outcome d (ns1 @ ns2) =
     (map (\<lambda>g. (g, Stored (the (read_file d g)))) ns1 @ fst (write_members outcome d ns2),
      snd (write_members outcome d ns2))"
  by (induction ns1) (auto split: prod.splits)

lemma write_members_ok:
  "snd (write_members outcome d ns) \<Longrightarrow> \<forall>g\<in>set ns. outcome g = Reads \<and> read_file d g \<noteq> None"
  by (induction ns) (auto split: option.splits read_result.splits prod.splits)

lemma create_backup_result:
  "create_backup outcome enc ts st =
     (if snd (write_members outcome (sessions st) (listdir (sessions st)))
      then Inr (''backup_'' @ ts @ ''.zip'',
                length (enc (fst (write_members outcome (sessions st) (listdir (sessions st))))))
      else Inl OSError,
      st\<lparr>backups := write_file (''backup_'' @ ts @ ''.zip'')
             (Archive (fst (write_members outcome (sessions st) (listdir (sessions st))))) (backups st)\<rparr>)"
  by (simp add: create_backup_def Let_def split: prod.splits)

text \<open>The definitions that a run on a concrete state unfolds.\<close>

lemmas run_defs =
  restore_backup_def save_upload_def upload_place_def plain_name_def extractall_def
  member_target_def member_parts_def store_file_def payload_bytes_def restored_names_def
  replace_def endswith_def suffix_to_prefix listdir_def read_file_def write_file_def
  path_exists_def session_path_def create_backup_def get_client_def load_client_def
  new_client_def Let_def

section \<open>The claims\<close>

subsection \<open>Account names\<close>

text \<open>
  C9. When \<^verbatim>\<open>add_account\<close> is called without an explicit name, the account name it
  returns is the part of the email before the first \<^verbatim>\<open>@\<close>, with every \<^verbatim>\<open>+\<close> and every
  \<^verbatim>\<open>.\<close> replaced by \<^verbatim>\<open>_\<close>.
\<close>

theorem add_account_derived_name:
  "req_name req = None \<Longrightarrow>
   snd (add_account req) =
     map (\<lambda>c. if c = CHR ''+'' \<or> c = CHR ''.'' then CHR ''_'' else c)
       (takeWhile (\<lambda>c. c \<noteq> CHR ''@'') (req_email req))"
  by (simp add: add_account_def account_name_of_def hd_split replace_char)

text \<open>The email \<^verbatim>\<open>alice@x.com\<close> gives the name \<^verbatim>\<open>alice\<close>.\<close>

theorem add_account_derived_name_witness:
  "req_name \<lparr>req_email = ''alice@x.com'', req_password = ''pw'', req_proxy = None, req_name = None\<rparr> = None \<and>
   snd (add_account \<lparr>req_email = ''alice@x.com'', req_password = ''pw'', req_proxy = None, req_name = None\<rparr>)
     = ''alice''"
  using add_account_derived_name
    [of "\<lparr>req_email = ''alice@x.com'', req_password = ''pw'', req_proxy = None, req_name = None\<rparr>"]
  by simp

subsection \<open>The client pool\<close>




text \<open>
  C5, as the code has it. When a handle is cached for \<open>n\<close> and its probe fails, the same
  call of \<^verbatim>\<open>get_client\<close> drops that handle and goes to the session store. If the session
  blob of \<open>n\<close> exists and the library loads it into a newly set up handle, that handle
  replaces the old one in the pool and is returned. If the library raises on the blob,
  the call fails and \<open>n\<close> is left without a cached handle.
\<close>

theorem get_client_probe_failed_rebuilds:
  "clients st n = Some old \<Longrightarrow> read_file (sessions st) (session_path n) = Some blob \<Longrightarrow>
   (\<forall>cl. load_settings blob
        \<lparr> settings = [],
          proxy = (case accounts st n of
                     Some m \<Rightarrow> (case meta_proxy m of
                                  Some p \<Rightarrow> if p \<noteq> [] then Some p else None
                                | None \<Rightarrow> None)
                   | None \<Rightarrow> None),
          delay_range = [2, 6],
          user_agent = ''Mozilla/5.0 (Windows NT 10.0; Win64; x64) AppleWebKit/537.36'' \<rparr> = Some cl \<longrightarrow>
      get_client load_settings False n st = (Inr cl, st\<lparr>clients := (clients st)(n \<mapsto> cl)\<rparr>)) \<and>
   (load_settings blob
        \<lparr> settings = [],
          proxy = (case accounts st n of
                     Some m \<Rightarrow> (case meta_proxy m of
                                  Some p \<Rightarrow> if p \<noteq> [] then Some p else None
                                | None \<Rightarrow> None)
                   | None \<Rightarrow> None),
          delay_range = [2, 6],
          user_agent = ''Mozilla/5.0 (Windows NT 10.0; Win64; x64) AppleWebKit/537.36'' \<rparr> = None \<longrightarrow>
      get_client load_settings False n st = (Inl LoadError, st\<lparr>clients := (clients st)(n := None)\<rparr>))"
  by (simp add: get_client_def load_client_def new_client_def)

theorem get_client_probe_failed_rebuilds_witness:
  "clients demo_json ''alice'' = Some demo_handle \<and>
   read_file (sessions demo_json) (session_path ''alice'') = Some ''{}'' \<and>
   toy_load ''{}''
     \<lparr> settings = [], proxy = None, delay_range = [2, 6],
       user_agent = ''Mozilla/5.0 (Windows NT 10.0; Win64; x64) AppleWebKit/537.36'' \<rparr>
     = Some \<lparr> settings = ''{}'', proxy = None, delay_range = [2, 6], user_agent = [] \<rparr> \<and>
   fst (get_client toy_load False ''alice'' demo_json)
     = Inr \<lparr> settings = ''{}'', proxy = None, delay_range = [2, 6], user_agent = [] \<rparr> \<and>
   clients (snd (get_client toy_load False ''alice'' demo_json)) ''alice''
     = Some \<lparr> settings = ''{}'', proxy = None, delay_range = [2, 6], user_agent = [] \<rparr> \<and>
   read_file (sessions demo) (session_path ''alice'') = Some ''A'' \<and>
   toy_load ''A''
     \<lparr> settings = [], proxy = None, delay_range = [2, 6],
       user_agent = ''Mozilla/5.0 (Windows NT 10.0; Win64; x64) AppleWebKit/537.36'' \<rparr> = None \<and>
   fst (get_client toy_load False ''alice'' demo) = Inl LoadError \<and>
   clients (snd (get_client toy_load False ''alice'' demo)) ''alice'' = None"
  using get_client_probe_failed_rebuilds [of demo_json "''alice''" demo_handle "''{}''" toy_load]
    get_client_probe_failed_rebuilds [of demo "''alice''" demo_handle "''A''" toy_load]
  by (simp add: run_defs demo_def demo_json_def toy_load_def)

text \<open>
  C5 as stated fails: a handle is cached for \<open>alice\<close>, her session blob exists, the probe
  fails, and the call raises because the blob does not load; the handle is gone.
\<close>

theorem get_client_probe_failed_load_fails:
  "clients demo ''alice'' = Some demo_handle \<and>
   read_file (sessions demo) (session_path ''alice'') = Some ''A'' \<and>
   fst (get_client toy_load False ''alice'' demo) = Inl LoadError \<and>
   clients (snd (get_client toy_load False ''alice'' demo)) ''alice'' = None"
  by (simp add: run_defs demo_def toy_load_def)

subsection \<open>Deleting an account\<close>

text \<open>
  C7. Without a session file for \<open>n\<close>, \<^verbatim>\<open>delete_account\<close> raises 404 and the state is
  unchanged (so the store, registry and pool entries of every other account are). With a
  session file, it removes the file, the cached handle of \<open>n\<close> and the metadata of \<open>n\<close>,
  and leaves every other account as it was.
\<close>

theorem delete_account_not_found_or_removed:
  "(\<not> path_exists (sessions st) (session_path n) \<longrightarrow>
      delete_account n st = (Inl (HTTPException 404 ''Account not found''), st)) \<and>
   (path_exists (sessions st) (session_path n) \<longrightarrow>
      fst (delete_account n st) = Inr (n @ '' deleted'') \<and>
      \<not> path_exists (sessions (snd (delete_account n st))) (session_path n) \<and>
      clients (snd (delete_account n st)) n = None \<and>
      accounts (snd (delete_account n st)) n = None \<and>
      (\<forall>m. m \<noteq> n \<longrightarrow>
         read_file (sessions (snd (delete_account n st))) (session_path m)
           = read_file (sessions st) (session_path m) \<and>
         clients (snd (delete_account n st)) m = clients st m \<and>
         accounts (snd (delete_account n st)) m = accounts st m))"
  by (simp add: delete_account_def path_exists_read read_remove_file session_path_def)

theorem delete_account_not_found_or_removed_witness:
  "\<not> path_exists (sessions demo) (session_path ''carol'') \<and>
   delete_account ''carol'' demo = (Inl (HTTPException 404 ''Account not found''), demo) \<and>
   path_exists (sessions demo) (session_path ''alice'') \<and>
   fst (delete_account ''alice'' demo) = Inr ''alice deleted'' \<and>
   sessions (snd (delete_account ''alice'' demo)) = [(''bob.json'', ''B'')] \<and>
   clients (snd (delete_account ''alice'' demo)) ''alice'' = None \<and>
   clients (snd (delete_account ''alice'' demo)) ''ghost'' = Some demo_handle \<and>
   accounts (snd (delete_account ''alice'' demo)) ''bob'' = accounts demo ''bob''"
  using delete_account_not_found_or_removed [of demo "''carol''"]
    delete_account_not_found_or_removed [of demo "''alice''"]
  by (simp add: demo_def delete_account_def path_exists_def listdir_def remove_file_def
      session_path_def)

text \<open>
  C10. When a handle is cached for \<open>n\<close> but \<open>n\<close> has no session file, \<^verbatim>\<open>delete_account\<close>
  raises 404 and the stale handle of \<open>n\<close> stays in the pool.
\<close>

theorem delete_account_keeps_stale_handle:
  "clients st n = Some h \<Longrightarrow> \<not> path_exists (sessions st) (session_path n) \<Longrightarrow>
   fst (delete_account n st) = Inl (HTTPException 404 ''Account not found'') \<and>
   clients (snd (delete_account n st)) n = Some h"
  by (simp add: delete_account_def)

theorem delete_account_keeps_stale_handle_witness:
  "clients demo ''ghost'' = Some demo_handle \<and>
   \<not> path_exists (sessions demo) (session_path ''ghost'') \<and>
   fst (delete_account ''ghost'' demo) = Inl (HTTPException 404 ''Account not found'') \<and>
   clients (snd (delete_account ''ghost'' demo)) ''ghost'' = Some demo_handle"
  using delete_account_keeps_stale_handle [of demo "''ghost''" demo_handle]
  by (simp add: demo_def path_exists_def listdir_def session_path_def)

subsection \<open>Restoring a backup\<close>









subsection \<open>Creating a backup\<close>

text \<open>
  C8, as the code has it. When the session files listed before \<open>f\<close> are read and reading
  \<open>f\<close> fails, \<^verbatim>\<open>create_backup\<close> raises and returns no archive name, and the session
  store, the pool and the registry are unchanged; but the archive file that it created
  stays in the backup directory. It holds the files listed before \<open>f\<close> with their
  contents and, when the read failed after \<open>f\<close> had been opened, an entry for \<open>f\<close> with
  the bytes read before the failure.
\<close>

theorem create_backup_failure_leaves_prefix:
  "sessions st = pre @ (f, b) # post \<Longrightarrow> distinct (map fst (sessions st)) \<Longrightarrow>
   \<forall>g\<in>fst ` set pre. outcome g = Reads \<Longrightarrow> outcome f \<noteq> Reads \<Longrightarrow>
   fst (create_backup outcome enc ts st) = Inl OSError \<and>
   sessions (snd (create_backup outcome enc ts st)) = sessions st \<and>
   clients (snd (create_backup outcome enc ts st)) = clients st \<and>
   accounts (snd (create_backup outcome enc ts st)) = accounts st \<and>
   read_file (backups (snd (create_backup outcome enc ts st))) (''backup_'' @ ts @ ''.zip'') =
     Some (Archive (map (\<lambda>p. (fst p, Stored (snd p))) pre @
                    (case outcome f of
                       Read_fails k \<Rightarrow> [(f, Stored (take k b))]
                     | _ \<Rightarrow> [])))"
proof -
  assume d: "sessions st = pre @ (f, b) # post" and dist: "distinct (map fst (sessions st))"
    and pre: "\<forall>g\<in>fst ` set pre. outcome g = Reads" and fail: "outcome f \<noteq> Reads"
  let ?d = "sessions st"
  have rd: "read_file ?d g = Some c" if "(g, c) \<in> set ?d" for g c
    using dist that by (rule read_file_distinct)
  have rdpre: "read_file ?d (fst p) = Some (snd p)" if "p \<in> set pre" for p
    using that by (intro rd) (simp add: d)
  have "\<forall>g\<in>set (map fst pre). outcome g = Reads \<and> read_file ?d g \<noteq> None"
    using pre rdpre by fastforce
  then have w: "write_members outcome ?d (listdir ?d) =
      (map (\<lambda>g. (g, Stored (the (read_file ?d g)))) (map fst pre) @
         fst (write_members outcome ?d (f # map fst post)),
       snd (write_members outcome ?d (f # map fst post)))"
    using write_members_append [of "map fst pre" outcome ?d "f # map fst post"]
    by (simp add: listdir_def d)
  have "map (\<lambda>g. (g, Stored (the (read_file ?d g)))) (map fst pre) = map (\<lambda>p. (fst p, Stored (snd p))) pre"
    using rdpre by simp
  moreover have "read_file ?d f = Some b"
    by (rule rd) (simp add: d)
  then have "write_members outcome ?d (f # map fst post) =
      ((case outcome f of Read_fails k \<Rightarrow> [(f, Stored (take k b))] | _ \<Rightarrow> []), False)"
    using fail by (cases "outcome f") simp_all
  ultimately have "write_members outcome ?d (listdir ?d) =
      (map (\<lambda>p. (fst p, Stored (snd p))) pre @
         (case outcome f of Read_fails k \<Rightarrow> [(f, Stored (take k b))] | _ \<Rightarrow> []), False)"
    using w by simp
  then show ?thesis
    by (simp add: create_backup_result read_write_file)
qed

theorem create_backup_failure_leaves_prefix_witness:
  "sessions demo = [(''alice.json'', ''A'')] @ (''bob.json'', ''B'') # [] \<and>
   distinct (map fst (sessions demo)) \<and>
   fst (create_backup (\<lambda>f. if f = ''bob.json'' then Read_fails 0 else Reads) demo_enc
          ''20240101_000000'' demo) = Inl OSError \<and>
   sessions (snd (create_backup (\<lambda>f. if f = ''bob.json'' then Read_fails 0 else Reads) demo_enc
          ''20240101_000000'' demo)) = sessions demo \<and>
   read_file (backups (snd (create_backup (\<lambda>f. if f = ''bob.json'' then Read_fails 0 else Reads)
          demo_enc ''20240101_000000'' demo))) ''backup_20240101_000000.zip''
     = Some (Archive [(''alice.json'', Stored ''A''), (''bob.json'', Stored '''')])"
  using create_backup_failure_leaves_prefix
    [of demo "[(''alice.json'', ''A'')]" "''bob.json''" "''B''" "[]"
        "\<lambda>f. if f = ''bob.json'' then Read_fails 0 else Reads" demo_enc "''20240101_000000''"]
  by (simp add: run_defs demo_def)

text \<open>
  C8 as stated fails: reading \<open>bob\<close>'s session file fails after it was opened, the
  backup raises, and an archive holding \<open>alice\<close>'s blob and an empty entry for \<open>bob\<close> is
  in the backup directory.
\<close>

theorem create_backup_emits_partial_archive:
  "fst (create_backup (\<lambda>f. if f = ''bob.json'' then Read_fails 0 else Reads) demo_enc
          ''20240101_000000'' demo) = Inl OSError \<and>
   read_file (backups (snd (create_backup (\<lambda>f. if f = ''bob.json'' then Read_fails 0 else Reads)
          demo_enc ''20240101_000000'' demo))) ''backup_20240101_000000.zip''
     = Some (Archive [(''alice.json'', Stored ''A''), (''bob.json'', Stored '''')])"
  by (simp add: run_defs demo_def)

subsection \<open>The round trip\<close>

text \<open>
  A backup that returns, restored under a plain file name into an empty session store,
  gives back every file of the original store with its contents, and no other file; the
  restore returns the listing of the store it has rebuilt, which names the same accounts
  as the listing of the original store.
\<close>

lemma backup_restore_roundtrip:
  assumes backup: "create_backup outcome enc ts st = (Inr (name, sz), st1)"
    and upload: "read_file (backups st1) name = Some upload"
    and plain_store: "\<forall>f\<in>set (listdir (sessions st)). plain_name f"
    and dist: "distinct (listdir (sessions st))"
    and plain_up: "plain_name filename"
    and empty: "sessions st2 = []"
    and restore: "restore_backup enc filename upload st2 = (r, st3)"
  shows "r = Inr (restored_names (sessions st3), length (restored_names (sessions st3))) \<and>
         (\<forall>f. read_file (sessions st3) f = read_file (sessions st) f) \<and>
         set (restored_names (sessions st3)) = set (restored_names (sessions st))"
proof -
  let ?d = "sessions st"
  let ?ms = "map (\<lambda>g. (g, Stored (the (read_file ?d g)))) (listdir ?d)"
  from backup have "snd (write_members outcome ?d (listdir ?d))"
    by (simp add: create_backup_result split: if_splits)
  then have "\<forall>g\<in>set (listdir ?d). outcome g = Reads \<and> read_file ?d g \<noteq> None"
    by (rule write_members_ok)
  then have w: "write_members outcome ?d (listdir ?d) = (?ms, True)"
    by (rule write_members_all_read)
  with backup have "name = ''backup_'' @ ts @ ''.zip''"
    and "st1 = st\<lparr>backups := write_file (''backup_'' @ ts @ ''.zip'') (Archive ?ms) (backups st)\<rparr>"
    by (auto simp: create_backup_result)
  with upload have up: "upload = Archive ?ms"
    by (simp add: read_write_file)
  have names: "map fst ?ms = listdir ?d"
    by (simp add: comp_def)
  have dms: "distinct (map fst ?ms)"
    unfolding names by (rule dist)
  have "\<forall>m\<in>set ?ms. plain_name (fst m) \<and> is_stored (snd m) \<and> map_of (rev ?ms) (fst m) = Some (snd m)"
    using plain_store map_of_rev_distinct [OF dms] by auto
  from extract_names_intact_prefix [OF dms this, of "[]"]
  have ok: "snd (extractall ?ms []) = Extracted"
    and rd: "\<And>g. read_file (fst (extractall ?ms [])) g =
               (case map_of ?ms g of Some (Stored b) \<Rightarrow> Some b | _ \<Rightarrow> read_file [] g)"
    by (simp_all add: extractall_def)
  have saved: "save_upload enc filename (Archive ?ms) st2 =
      Some (st2\<lparr>backups := write_file filename (Archive ?ms) (backups st2)\<rparr>)"
    using plain_up by (rule save_upload_plain)
  from restore have r: "r = Inr (restored_names (sessions st3), length (restored_names (sessions st3)))"
    and st3: "sessions st3 = fst (extractall ?ms [])"
    by (auto simp: up restore_backup_saved [OF saved] empty ok)
  have same: "read_file (sessions st3) g = read_file ?d g" for g
  proof (cases "g \<in> set (listdir ?d)")
    case True
    then have "(g, Stored (the (read_file ?d g))) \<in> set ?ms"
      by auto
    then have "map_of ?ms g = Some (Stored (the (read_file ?d g)))"
      using dms by (intro map_of_is_SomeI)
    moreover have "read_file ?d g \<noteq> None"
      using True path_exists_read [of ?d g] by (simp add: path_exists_def)
    ultimately show ?thesis
      by (auto simp: st3 rd)
  next
    case False
    then have "map_of ?ms g = None"
      by (simp add: map_of_eq_None_iff image_image)
    moreover have "read_file ?d g = None"
      using False path_exists_read [of ?d g] by (simp add: path_exists_def)
    moreover have "read_file [] g = None"
      by (simp add: read_file_def)
    ultimately show ?thesis
      by (simp add: st3 rd)
  qed
  then have "path_exists (sessions st3) g \<longleftrightarrow> path_exists ?d g" for g
    by (simp add: path_exists_read)
  then have "set (listdir (sessions st3)) = set (listdir ?d)"
    by (auto simp: path_exists_def)
  then have "set (restored_names (sessions st3)) = set (restored_names ?d)"
    by (simp add: restored_names_def)
  with r same show ?thesis
    by simp
qed

text \<open>
  C1 at the account \<^verbatim>\<open>a.json\<close>, whose session file is \<^verbatim>\<open>a.json.json\<close>. The backup
  holds the file and the restore into the empty store gives the store back, but the
  list of names that the restore returns is \<^verbatim>\<open>["a"]\<close>: \<^verbatim>\<open>replace\<close> removes both
  occurrences of \<^verbatim>\<open>.json\<close>. The session file of the account \<^verbatim>\<open>a.json\<close> exists, and
  none exists for the name \<^verbatim>\<open>a\<close>.
\<close>

theorem restore_backup_misnames_account:
  "\<not> isl (fst (create_backup (\<lambda>f. Reads) demo_enc ''20240101_000000'' dotted)) \<and>
   read_file (backups (snd (create_backup (\<lambda>f. Reads) demo_enc ''20240101_000000'' dotted)))
     ''backup_20240101_000000.zip'' = Some (Archive [(''a.json.json'', Stored ''S'')]) \<and>
   path_exists (sessions dotted) (session_path ''a.json'') \<and>
   fst (restore_backup demo_enc ''backup_20240101_000000.zip''
          (Archive [(''a.json.json'', Stored ''S'')]) blank) = Inr ([''a''], 1) \<and>
   sessions (snd (restore_backup demo_enc ''backup_20240101_000000.zip''
      (Archive [(''a.json.json'', Stored ''S'')]) blank)) = sessions dotted \<and>
   path_exists (sessions (snd (restore_backup demo_enc ''backup_20240101_000000.zip''
      (Archive [(''a.json.json'', Stored ''S'')]) blank))) (session_path ''a.json'') \<and>
   \<not> path_exists (sessions (snd (restore_backup demo_enc ''backup_20240101_000000.zip''
      (Archive [(''a.json.json'', Stored ''S'')]) blank))) (session_path ''a'')"
  by (simp add: run_defs dotted_def blank_def)

end
